theory Spec2Isabelle
  imports Main
begin

section \<open>Aggregate tuples of the chaincode: data model\<close>

text \<open>
  The development embeds \<^verbatim>\<open>src/chaincode/tuple_aggregate.go\<close>. Go functions that
  return \<^verbatim>\<open>error\<close> become functions returning an \<open>error option\<close> (\<open>None\<close> is
  \<^verbatim>\<open>nil\<close>); a Go function returning \<^verbatim>\<open>(v, err)\<close> and read only on success becomes
  \<open>error + 'a\<close>. The ledger handle \<^verbatim>\<open>db\<close> is an explicit state that every writing
  operation returns, also when it fails. A method with a pointer receiver returns the
  updated receiver.
\<close>

subsection \<open>Asset types, statuses, errors\<close>

text \<open>
  Modelled from the spec: the discriminant tag of a tuple (one variant per job kind:
  Train, CompositeTrain, Aggregate, Test). The declaration of \<^verbatim>\<open>AssetType\<close> is not
  in the source file.
\<close>

datatype AssetType =
  TraintupleType | CompositeTraintupleType | AggregatetupleType | TesttupleType

text \<open>
  Modelled from the spec: the status constants
  \<^verbatim>\<open>waiting | todo | doing | done | failed | aborted\<close>. In the source a status is a Go
  string, and the zero string means that no status was determined.
\<close>

definition StatusWaiting :: string where "StatusWaiting = ''waiting''"
definition StatusTodo :: string where "StatusTodo = ''todo''"
definition StatusDoing :: string where "StatusDoing = ''doing''"
definition StatusDone :: string where "StatusDone = ''done''"
definition StatusFailed :: string where "StatusFailed = ''failed''"
definition StatusAborted :: string where "StatusAborted = ''aborted''"

text \<open>
  Modelled from the spec: the error taxonomy of package \<^verbatim>\<open>chaincode/errors\<close>
  (BadRequest, Forbidden, Conflict, NotFound, Internal). An error built by one of the
  package's constructors keeps its kind and the arguments of the call, in the order of
  the call; the rendering of the message is the package's and is not modelled. Where the
  source passes \<^verbatim>\<open>err.Error()\<close> as an argument, the argument is the error itself.
  \<open>NumError\<close> is the error of \<^verbatim>\<open>strconv\<close> (function, input, reason) and
  \<open>OtherError\<close> any other Go error.
\<close>

datatype errorKind =
  BadRequestKind | ForbiddenKind | ConflictKind | NotFoundKind | InternalKind

datatype fmtarg = ArgS string | ArgI int | ArgT AssetType | ArgE error
  and error =
    ChaincodeError errorKind "fmtarg list"
  | NumError string string string
  | OtherError string

definition errors_BadRequest :: "fmtarg list \<Rightarrow> error" where
  "errors_BadRequest args = ChaincodeError BadRequestKind args"

definition errors_Internal :: "fmtarg list \<Rightarrow> error" where
  "errors_Internal args = ChaincodeError InternalKind args"

definition errors_Conflict :: "fmtarg list \<Rightarrow> error" where
  "errors_Conflict args = ChaincodeError ConflictKind args"

fun kindOf :: "error \<Rightarrow> errorKind option" where
  "kindOf (ChaincodeError k args) = Some k"
| "kindOf (NumError f n r) = None"
| "kindOf (OtherError m) = None"

subsection \<open>strconv.Atoi and strconv.Itoa\<close>

text \<open>
  \<^verbatim>\<open>strconv.Atoi\<close> of the Go standard library, for a 64-bit \<^verbatim>\<open>int\<close>. A string of 1
  to 18 bytes takes the fast path: an optional sign, then digits only. Any other string
  goes through \<^verbatim>\<open>ParseInt(s, 10, 0)\<close>, which strips the sign and calls
  \<^verbatim>\<open>ParseUint\<close>; that function scans from the left and stops at the first byte that is
  not a digit (syntax error, value 0) or at the first digit with which the value leaves
  the unsigned 64-bit range (range error, value \<open>2^64 - 1\<close>), whichever comes first.
  \<^verbatim>\<open>ParseInt\<close> turns a range error, and a value beyond the signed range, into the nearest
  signed bound with a range error. An error is a \<^verbatim>\<open>*NumError\<close> of function, input and
  reason, and \<^verbatim>\<open>Atoi\<close> writes its own name into it.
\<close>

definition ErrSyntax :: string where "ErrSyntax = ''invalid syntax''"
definition ErrRange :: string where "ErrRange = ''value out of range''"

definition digitOf :: "char \<Rightarrow> int option" where
  "digitOf c =
     (if 48 \<le> (of_char c :: int) \<and> (of_char c :: int) \<le> 57
      then Some ((of_char c :: int) - 48) else None)"

text \<open>The loop of the fast path: \<open>None\<close> is its syntax error.\<close>

fun parseDigits :: "string \<Rightarrow> int \<Rightarrow> int option" where
  "parseDigits [] acc = Some acc"
| "parseDigits (c # cs) acc =
     (case digitOf c of None \<Rightarrow> None | Some d \<Rightarrow> parseDigits cs (acc * 10 + d))"

text \<open>
  The loop of \<^verbatim>\<open>ParseUint\<close> in base 10 at 64 bits, on the whole input \<open>s0\<close> for the
  error, the rest of the input and the value so far. The cutoff \<open>1844674407370955162\<close>
  is \<open>maxUint64 / 10 + 1\<close>.
\<close>

fun ParseUintLoop :: "string \<Rightarrow> string \<Rightarrow> int \<Rightarrow> int \<times> error option" where
  "ParseUintLoop s0 [] n = (n, None)"
| "ParseUintLoop s0 (c # cs) n =
     (case digitOf c of
        None \<Rightarrow> (0, Some (NumError ''ParseUint'' s0 ErrSyntax))
      | Some d \<Rightarrow>
          if 1844674407370955162 \<le> n
          then (18446744073709551615, Some (NumError ''ParseUint'' s0 ErrRange))
          else if 18446744073709551615 < n * 10 + d
          then (18446744073709551615, Some (NumError ''ParseUint'' s0 ErrRange))
          else ParseUintLoop s0 cs (n * 10 + d))"

definition ParseUint :: "string \<Rightarrow> int \<times> error option" where
  "ParseUint s =
     (if s = [] then (0, Some (NumError ''ParseUint'' s ErrSyntax)) else ParseUintLoop s s 0)"

text \<open>The end of \<^verbatim>\<open>ParseInt\<close>: the unsigned value against the signed range.\<close>

definition signedOf :: "string \<Rightarrow> bool \<Rightarrow> int \<Rightarrow> int \<times> error option" where
  "signedOf s0 neg un =
     (if \<not> neg \<and> 9223372036854775808 \<le> un
      then (9223372036854775807, Some (NumError ''ParseInt'' s0 ErrRange))
      else if neg \<and> 9223372036854775808 < un
      then (- 9223372036854775808, Some (NumError ''ParseInt'' s0 ErrRange))
      else (if neg then - un else un, None))"

definition ParseInt :: "string \<Rightarrow> int \<times> error option" where
  "ParseInt s =
     (case s of
        [] \<Rightarrow> (0, Some (NumError ''ParseInt'' s ErrSyntax))
      | c # cs \<Rightarrow>
          (let neg = (c = CHR ''-'');
               body = (if c = CHR ''+'' \<or> c = CHR ''-'' then cs else s)
           in case ParseUint body of
                (un, None) \<Rightarrow> signedOf s neg un
              | (un, Some (NumError f num reason)) \<Rightarrow>
                  if reason \<noteq> ErrRange then (0, Some (NumError ''ParseInt'' s reason))
                  else signedOf s neg un
              | (un, Some e) \<Rightarrow> (0, Some e)))"

definition Atoi :: "string \<Rightarrow> int \<times> error option" where
  "Atoi s =
     (if 0 < length s \<and> length s < 19 then
        (let body = (case s of [] \<Rightarrow> []
                     | c # cs \<Rightarrow> if c = CHR ''-'' \<or> c = CHR ''+'' then cs else s)
         in if body = [] then (0, Some (NumError ''Atoi'' s ErrSyntax))
            else case parseDigits body 0 of
              None \<Rightarrow> (0, Some (NumError ''Atoi'' s ErrSyntax))
            | Some n \<Rightarrow> (if take 1 s = ''-'' then - n else n, None))
      else
        (case ParseInt s of
           (i, Some (NumError f num reason)) \<Rightarrow> (i, Some (NumError ''Atoi'' num reason))
         | (i, err) \<Rightarrow> (i, err)))"

text \<open>
  \<^verbatim>\<open>strconv.Itoa\<close>: the decimal digits of the value, after a minus sign when it is
  negative.
\<close>

function digitsOf :: "int \<Rightarrow> string" where
  "digitsOf n =
     (if n < 10 then [''0123456789'' ! nat n]
      else digitsOf (n div 10) @ [''0123456789'' ! nat (n mod 10)])"
  by pat_completeness auto
termination
  by (relation "measure nat") auto

declare digitsOf.simps [simp del]

definition Itoa :: "int \<Rightarrow> string" where
  "Itoa i = (if i < 0 then CHR ''-'' # digitsOf (- i) else digitsOf i)"

subsection \<open>Records\<close>

text \<open>
  The fields of \<^verbatim>\<open>Aggregatetuple\<close> that the source file reads or writes. The type of
  permissions is declared outside the file and is a type parameter.
\<close>

record KeyChecksumAddress =
  kca_Key :: string
  kca_Checksum :: string
  kca_StorageAddress :: string

record 'p Aggregatetuple =
  Key :: string
  AssetType :: AssetType
  Creator :: string
  Metadata :: "(string \<times> string) list"
  Tag :: string
  ComputePlanKey :: string
  AlgoKey :: string
  Worker :: string
  Rank :: int
  InModelKeys :: "string list"
  Status :: string
  Permissions :: 'p
  Log :: string
  OutModel :: "KeyChecksumAddress option"

text \<open>
  Of a parent train tuple the source reads \<^verbatim>\<open>Status\<close> and \<^verbatim>\<open>Permissions\<close>, of a
  parent composite train tuple \<^verbatim>\<open>Status\<close> and \<^verbatim>\<open>OutTrunkModel.Permissions\<close>.
\<close>

record 'p Traintuple =
  tt_Status :: string
  tt_Permissions :: 'p

record 'p CompositeTraintuple =
  ct_Status :: string
  ct_OutTrunkModel_Permissions :: 'p

record inputAggregatetuple =
  inp_Key :: string
  inp_AlgoKey :: string
  inp_InModels :: "string list"
  inp_ComputePlanKey :: string
  inp_Metadata :: "(string \<times> string) list"
  inp_Rank :: string
  inp_Tag :: string
  inp_Worker :: string

record inputLogFailTrain =
  lf_Key :: string
  lf_Log :: string

subsection \<open>The collaborators of the file\<close>

text \<open>
  The source file calls the ledger facade, the permission model, the compute-plan
  coordinator and the request decoder, none of which it defines. They are the fields of
  one record of operations, over which every function of the file is parameterised:
  \<open>'db\<close> is the ledger, \<open>'p\<close> the permissions, \<open>'ip\<close> the input permissions,
  \<open>'cp\<close> a compute plan and \<open>'o\<close> the output view of an aggregate tuple. A reading
  operation takes the ledger; a writing one returns it as well, with its error.
  \<open>zeroPermissions\<close> is the Go value \<^verbatim>\<open>Permissions{}\<close> and \<open>zeroOutput\<close> the
  zero \<^verbatim>\<open>outputAggregatetuple\<close>; \<open>outStatus\<close> reads the field \<^verbatim>\<open>Status\<close> of the
  output view; \<open>AddTuple\<close> and \<open>SaveComputePlan\<close> are the methods \<^verbatim>\<open>AddTuple\<close> and
  \<^verbatim>\<open>Save\<close> of a compute plan.
\<close>

record ('db, 'p, 'ip, 'cp, 'o) Collaborators =
  NewPermissions :: "'db \<Rightarrow> 'ip \<Rightarrow> error + 'p"
  OpenPermissions :: 'ip
  zeroPermissions :: 'p
  MergePermissions :: "'p \<Rightarrow> 'p \<Rightarrow> 'p"
  GetAssetType :: "'db \<Rightarrow> string \<Rightarrow> error + AssetType"
  GetCompositeTraintuple :: "'db \<Rightarrow> string \<Rightarrow> error + 'p CompositeTraintuple"
  GetTraintuple :: "'db \<Rightarrow> string \<Rightarrow> error + 'p Traintuple"
  GetAggregatetuple :: "'db \<Rightarrow> string \<Rightarrow> error + 'p Aggregatetuple"
  GetIndexKeys :: "'db \<Rightarrow> string \<Rightarrow> string list \<Rightarrow> error + string list"
  IsReady :: "'db \<Rightarrow> string list \<Rightarrow> string \<Rightarrow> error + bool"
  checkUpdateTuple :: "'db \<Rightarrow> string \<Rightarrow> string \<Rightarrow> string \<Rightarrow> error option"
  validateTupleOwner :: "'db \<Rightarrow> string \<Rightarrow> error option"
  GetComputePlan :: "'db \<Rightarrow> string \<Rightarrow> error + 'cp"
  AddTuple :: "'db \<Rightarrow> 'cp \<Rightarrow> AssetType \<Rightarrow> string \<Rightarrow> string \<Rightarrow> string
    \<Rightarrow> error option \<times> 'cp \<times> 'db"
  SaveComputePlan :: "'db \<Rightarrow> 'cp \<Rightarrow> string \<Rightarrow> error option \<times> 'db"
  UpdateComputePlanState :: "'db \<Rightarrow> string \<Rightarrow> string \<Rightarrow> string \<Rightarrow> string
    \<Rightarrow> error option \<times> 'db"
  Add :: "'db \<Rightarrow> string \<Rightarrow> 'p Aggregatetuple \<Rightarrow> error option \<times> 'db"
  CreateIndex :: "'db \<Rightarrow> string \<Rightarrow> string list \<Rightarrow> error option \<times> 'db"
  Put :: "'db \<Rightarrow> string \<Rightarrow> 'p Aggregatetuple \<Rightarrow> error option \<times> 'db"
  UpdateIndex :: "'db \<Rightarrow> string \<Rightarrow> string list \<Rightarrow> string list \<Rightarrow> error option \<times> 'db"
  AddTupleEvent :: "'db \<Rightarrow> string \<Rightarrow> error option \<times> 'db"
  UpdateTesttupleChildren :: "'db \<Rightarrow> string \<Rightarrow> string \<Rightarrow> error option \<times> 'db"
  UpdateTraintupleChildren :: "'db \<Rightarrow> string \<Rightarrow> string \<Rightarrow> string list
    \<Rightarrow> error option \<times> 'db"
  AssetFromJSON :: "string list \<Rightarrow> error + inputLogFailTrain"
  Fill :: "'db \<Rightarrow> 'o \<Rightarrow> 'p Aggregatetuple \<Rightarrow> error option \<times> 'o"
  zeroOutput :: 'o
  outStatus :: "'o \<Rightarrow> string"

section \<open>The functions of the file\<close>

subsection \<open>SetFromParents\<close>

text \<open>
  Modelled from the spec: \<^verbatim>\<open>determineStatusFromInModels\<close> is called by
  \<^verbatim>\<open>SetFromParents\<close> and defined outside the source file. The spec gives its
  precedence: if any parent status is failed, the derived status is failed; else if all
  parent statuses are done, it is todo; otherwise it is waiting.
\<close>

definition determineStatusFromInModels :: "string list \<Rightarrow> string" where
  "determineStatusFromInModels statuses =
     (if StatusFailed \<in> set statuses then StatusFailed
      else if list_all (\<lambda>s. s = StatusDone) statuses then StatusTodo
      else StatusWaiting)"

text \<open>
  The \<^verbatim>\<open>switch\<close> of the loop body (lines 81 to 103). Each case clause declares its
  own \<^verbatim>\<open>tuple, err :=\<close>, so the error of the kind-specific lookup lives in the clause
  only: on success the clause records the parent's permissions and appends its status,
  on failure it records nothing. The result is the pair of \<^verbatim>\<open>parentPermissions\<close> and
  \<^verbatim>\<open>parentStatuses\<close> after the switch, or the error of the default clause.
\<close>

definition parentSwitch ::
  "('db, 'p, 'ip, 'cp, 'o) Collaborators \<Rightarrow> 'db \<Rightarrow> string \<Rightarrow> AssetType \<Rightarrow> string list
     \<Rightarrow> error + ('p \<times> string list)" where
  "parentSwitch ops db parentTraintupleKey parentType parentStatuses =
     (case parentType of
        CompositeTraintupleType \<Rightarrow>
          (case GetCompositeTraintuple ops db parentTraintupleKey of
             Inr t \<Rightarrow> Inr (ct_OutTrunkModel_Permissions t, parentStatuses @ [ct_Status t])
           | Inl e \<Rightarrow> Inr (zeroPermissions ops, parentStatuses))
      | TraintupleType \<Rightarrow>
          (case GetTraintuple ops db parentTraintupleKey of
             Inr t \<Rightarrow> Inr (tt_Permissions t, parentStatuses @ [tt_Status t])
           | Inl e \<Rightarrow> Inr (zeroPermissions ops, parentStatuses))
      | AggregatetupleType \<Rightarrow>
          (case GetAggregatetuple ops db parentTraintupleKey of
             Inr t \<Rightarrow> Inr (Permissions t, parentStatuses @ [Status t])
           | Inl e \<Rightarrow> Inr (zeroPermissions ops, parentStatuses))
      | _ \<Rightarrow>
          Inl (errors_Internal
                 [ArgS ''aggregate.SetFromParents: Unsupported parent type %s'',
                  ArgT parentType]))"

text \<open>
  The loop over \<^verbatim>\<open>inModels\<close> (lines 72 to 111), on the accumulators
  \<^verbatim>\<open>parentStatuses\<close>, \<^verbatim>\<open>inModelKeys\<close> and \<^verbatim>\<open>permissions\<close>. The \<^verbatim>\<open>err\<close> tested on
  line 105 is the one declared on line 73, which is \<^verbatim>\<open>nil\<close> once line 76 is passed.
\<close>

fun parentsLoop ::
  "('db, 'p, 'ip, 'cp, 'o) Collaborators \<Rightarrow> 'db \<Rightarrow> string list
     \<Rightarrow> string list \<times> string list \<times> 'p \<Rightarrow> error + (string list \<times> string list \<times> 'p)" where
  "parentsLoop ops db [] acc = Inr acc"
| "parentsLoop ops db (parentTraintupleKey # rest) (parentStatuses, inModelKeys, permissions) =
     (case GetAssetType ops db parentTraintupleKey of
        Inl e \<Rightarrow>
          Inl (errors_Internal
                 [ArgS ''could not retrieve traintuple type with key %s - %s'',
                  ArgS parentTraintupleKey, ArgE e])
      | Inr parentType \<Rightarrow>
          (let err = (None :: error option) in
           case parentSwitch ops db parentTraintupleKey parentType parentStatuses of
             Inl e \<Rightarrow> Inl e
           | Inr (parentPermissions, parentStatuses') \<Rightarrow>
               (case err of
                  Some e \<Rightarrow>
                    Inl (errors_Internal
                           [ArgS ''could not retrieve traintuple type with key %s - %s'',
                            ArgS parentTraintupleKey, ArgE e])
                | None \<Rightarrow>
                    parentsLoop ops db rest
                      (parentStatuses', inModelKeys @ [parentTraintupleKey],
                       MergePermissions ops permissions parentPermissions))))"

definition SetFromParents ::
  "('db, 'p, 'ip, 'cp, 'o) Collaborators \<Rightarrow> 'db \<Rightarrow> 'p Aggregatetuple \<Rightarrow> string list
     \<Rightarrow> error option \<times> 'p Aggregatetuple" where
  "SetFromParents ops db tuple inModels =
     (case NewPermissions ops db (OpenPermissions ops) of
        Inl e \<Rightarrow>
          (Some (errors_BadRequest [ArgE e, ArgS ''could not generate open permissions'']),
           tuple)
      | Inr permissions \<Rightarrow>
          (case parentsLoop ops db inModels ([], InModelKeys tuple, permissions) of
             Inl e \<Rightarrow> (Some e, tuple)
           | Inr (parentStatuses, inModelKeys, permissions') \<Rightarrow>
               (None,
                tuple\<lparr>Status := determineStatusFromInModels parentStatuses,
                      InModelKeys := inModelKeys,
                      Permissions := permissions'\<rparr>)))"

subsection \<open>AddToComputePlan\<close>

definition AddToComputePlan ::
  "('db, 'p, 'ip, 'cp, 'o) Collaborators \<Rightarrow> 'db \<Rightarrow> 'p Aggregatetuple
     \<Rightarrow> inputAggregatetuple \<Rightarrow> string \<Rightarrow> bool
     \<Rightarrow> error option \<times> 'p Aggregatetuple \<times> 'db" where
  "AddToComputePlan ops db tuple inp traintupleKey checkComputePlanAvailability =
     (if inp_Rank inp = [] then
        (if inp_ComputePlanKey inp \<noteq> [] then
           (Some (errors_BadRequest
                    [ArgS ''invalid inputs, a ComputePlan should have a rank'']),
            tuple, db)
         else (None, tuple, db))
      else
        (let tuple1 = tuple\<lparr>Rank := fst (Atoi (inp_Rank inp))\<rparr> in
         case snd (Atoi (inp_Rank inp)) of
           Some e \<Rightarrow> (Some e, tuple1, db)
         | None \<Rightarrow>
             (let tuple2 = tuple1\<lparr>ComputePlanKey := inp_ComputePlanKey inp\<rparr> in
              case GetComputePlan ops db (inp_ComputePlanKey inp) of
                Inl e \<Rightarrow> (Some e, tuple2, db)
              | Inr computePlan \<Rightarrow>
                  (case AddTuple ops db computePlan AggregatetupleType traintupleKey
                          (Status tuple2) (Worker tuple2) of
                     (Some e, computePlan1, db1) \<Rightarrow> (Some e, tuple2, db1)
                   | (None, computePlan1, db1) \<Rightarrow>
                       (case SaveComputePlan ops db1 computePlan1 (ComputePlanKey tuple2) of
                          (Some e, db2) \<Rightarrow> (Some e, tuple2, db2)
                        | (None, db2) \<Rightarrow>
                            if \<not> checkComputePlanAvailability then (None, tuple2, db2)
                            else
                              (case GetIndexKeys ops db2
                                      ''computePlan~computeplankey~worker~rank~key''
                                      [''computePlan'', inp_ComputePlanKey inp,
                                       Worker tuple2, inp_Rank inp] of
                                 Inl e \<Rightarrow> (Some e, tuple2, db2)
                               | Inr ttKeys \<Rightarrow>
                                   if 0 < length ttKeys then
                                     (Some (errors_BadRequest
                                              [ArgS ''ComputePlanKey %s with worker %s rank %d already exists'',
                                               ArgS (inp_ComputePlanKey inp),
                                               ArgS (Worker tuple2),
                                               ArgI (Rank tuple2)]),
                                      tuple2, db2)
                                   else (None, tuple2, db2)))))))"

subsection \<open>Save\<close>

text \<open>
  A ledger write followed by what comes after it: the first error ends the function
  with the ledger as that write left it.
\<close>

definition andThen ::
  "error option \<times> 'db \<Rightarrow> ('db \<Rightarrow> error option \<times> 'db) \<Rightarrow> error option \<times> 'db" where
  "andThen r f = (case r of (Some e, db1) \<Rightarrow> (Some e, db1) | (None, db1) \<Rightarrow> f db1)"

text \<open>The loop of lines 183 to 187: one index entry for each in-model.\<close>

fun createInModelIndexes ::
  "('db, 'p, 'ip, 'cp, 'o) Collaborators \<Rightarrow> 'db \<Rightarrow> string list \<Rightarrow> string
     \<Rightarrow> error option \<times> 'db" where
  "createInModelIndexes ops db [] aggregatetupleKey = (None, db)"
| "createInModelIndexes ops db (inModelKey # rest) aggregatetupleKey =
     andThen (CreateIndex ops db ''tuple~inModel~key''
                [''tuple'', inModelKey, aggregatetupleKey])
       (\<lambda>db1. createInModelIndexes ops db1 rest aggregatetupleKey)"

definition Save ::
  "('db, 'p, 'ip, 'cp, 'o) Collaborators \<Rightarrow> 'db \<Rightarrow> 'p Aggregatetuple \<Rightarrow> string
     \<Rightarrow> error option \<times> 'db" where
  "Save ops db tuple aggregatetupleKey =
     andThen (Add ops db aggregatetupleKey tuple) (\<lambda>db1.
     andThen (CreateIndex ops db1 ''aggregatetuple~algo~key''
                [''aggregatetuple'', AlgoKey tuple, aggregatetupleKey]) (\<lambda>db2.
     andThen (CreateIndex ops db2 ''aggregatetuple~worker~status~key''
                [''aggregatetuple'', Worker tuple, Status tuple, aggregatetupleKey]) (\<lambda>db3.
     andThen (createInModelIndexes ops db3 (InModelKeys tuple) aggregatetupleKey) (\<lambda>db4.
     andThen
       (if ComputePlanKey tuple \<noteq> [] then
          andThen (CreateIndex ops db4 ''computePlan~computeplankey~worker~rank~key''
                     [''computePlan'', ComputePlanKey tuple, Worker tuple, Itoa (Rank tuple),
                      aggregatetupleKey]) (\<lambda>db5.
          CreateIndex ops db5 ''algo~computeplankey~key''
            [''algo'', ComputePlanKey tuple, AlgoKey tuple])
        else (None, db4)) (\<lambda>db6.
     if Tag tuple \<noteq> [] then
       CreateIndex ops db6 ''aggregatetuple~tag~key''
         [''aggregatetuple'', Tag tuple, aggregatetupleKey]
     else (None, db6))))))"

subsection \<open>commitStatusUpdate and validateNewStatus\<close>

definition validateNewStatus ::
  "('db, 'p, 'ip, 'cp, 'o) Collaborators \<Rightarrow> 'db \<Rightarrow> 'p Aggregatetuple \<Rightarrow> string
     \<Rightarrow> error option" where
  "validateNewStatus ops db tuple status =
     (case checkUpdateTuple ops db (Worker tuple) (Status tuple) status of
        Some e \<Rightarrow> Some e
      | None \<Rightarrow> None)"

text \<open>The call of the logger on line 534 writes nothing to the ledger and is left out.\<close>

definition commitStatusUpdate ::
  "('db, 'p, 'ip, 'cp, 'o) Collaborators \<Rightarrow> 'db \<Rightarrow> 'p Aggregatetuple \<Rightarrow> string \<Rightarrow> string
     \<Rightarrow> error option \<times> 'p Aggregatetuple \<times> 'db" where
  "commitStatusUpdate ops db tuple aggregatetupleKey newStatus =
     (if Status tuple = newStatus then (None, tuple, db)
      else if StatusAborted = newStatus \<and> Status tuple \<noteq> StatusWaiting then (None, tuple, db)
      else
        (case validateNewStatus ops db tuple newStatus of
           Some e \<Rightarrow>
             (Some (errors_Internal
                      [ArgS ''update aggregatetuple %s failed: %s'',
                       ArgS aggregatetupleKey, ArgE e]),
              tuple, db)
         | None \<Rightarrow>
             (let oldStatus = Status tuple;
                  tuple1 = tuple\<lparr>Status := newStatus\<rparr>
              in case Put ops db aggregatetupleKey tuple1 of
                   (Some e, db1) \<Rightarrow>
                     (Some (errors_Internal
                              [ArgS ''failed to update aggregatetuple %s - %s'',
                               ArgS aggregatetupleKey, ArgE e]),
                      tuple1, db1)
                 | (None, db1) \<Rightarrow>
                     (case UpdateIndex ops db1 ''aggregatetuple~worker~status~key''
                             [''aggregatetuple'', Worker tuple1, oldStatus, aggregatetupleKey]
                             [''aggregatetuple'', Worker tuple1, Status tuple1,
                              aggregatetupleKey] of
                        (Some e, db2) \<Rightarrow> (Some e, tuple1, db2)
                      | (None, db2) \<Rightarrow>
                          (case UpdateComputePlanState ops db2 (ComputePlanKey tuple1)
                                  newStatus aggregatetupleKey (Worker tuple1) of
                             (Some e, db3) \<Rightarrow> (Some e, tuple1, db3)
                           | (None, db3) \<Rightarrow> (None, tuple1, db3))))))"

subsection \<open>Child propagation\<close>

definition isReady ::
  "('db, 'p, 'ip, 'cp, 'o) Collaborators \<Rightarrow> 'db \<Rightarrow> 'p Aggregatetuple \<Rightarrow> string
     \<Rightarrow> error + bool" where
  "isReady ops db tuple newDoneAggregatetupleKey =
     IsReady ops db (InModelKeys tuple) newDoneAggregatetupleKey"

text \<open>
  The local \<^verbatim>\<open>newStatus\<close> of \<^verbatim>\<open>UpdateAggregatetupleChild\<close> (lines 457 to 469): the
  zero string when no status is determined.
\<close>

definition childNewStatus ::
  "('db, 'p, 'ip, 'cp, 'o) Collaborators \<Rightarrow> 'db \<Rightarrow> 'p Aggregatetuple \<Rightarrow> string \<Rightarrow> string
     \<Rightarrow> error + string" where
  "childNewStatus ops db childAggregatetuple parentAggregatetupleKey aggregatetupleStatus =
     (if aggregatetupleStatus = StatusFailed then Inr StatusFailed
      else if aggregatetupleStatus = StatusDone then
        (case isReady ops db childAggregatetuple parentAggregatetupleKey of
           Inl e \<Rightarrow> Inl e
         | Inr ready \<Rightarrow> if ready then Inr StatusTodo else Inr [])
      else Inr [])"

text \<open>The result is \<^verbatim>\<open>(childStatus, err)\<close> and the ledger.\<close>

definition UpdateAggregatetupleChild ::
  "('db, 'p, 'ip, 'cp, 'o) Collaborators \<Rightarrow> 'db \<Rightarrow> string \<Rightarrow> string \<Rightarrow> string
     \<Rightarrow> string \<times> error option \<times> 'db" where
  "UpdateAggregatetupleChild ops db parentAggregatetupleKey childAggregatetupleKey
       aggregatetupleStatus =
     (case GetAggregatetuple ops db childAggregatetupleKey of
        Inl e \<Rightarrow> ([], Some e, db)
      | Inr childAggregatetuple \<Rightarrow>
          (let childStatus = Status childAggregatetuple in
           case childNewStatus ops db childAggregatetuple parentAggregatetupleKey
                  aggregatetupleStatus of
             Inl e \<Rightarrow> (childStatus, Some e, db)
           | Inr newStatus \<Rightarrow>
               if newStatus = [] then (childStatus, None, db)
               else
                 (case commitStatusUpdate ops db childAggregatetuple childAggregatetupleKey
                         newStatus of
                    (Some e, child1, db1) \<Rightarrow> (childStatus, Some e, db1)
                  | (None, child1, db1) \<Rightarrow>
                      (case AddTupleEvent ops db1 childAggregatetupleKey of
                         (err, db2) \<Rightarrow> (Status child1, err, db2)))))"

subsection \<open>logFailAggregate\<close>

text \<open>
  The result is \<^verbatim>\<open>(o, err)\<close> and the ledger. The named result \<^verbatim>\<open>o\<close> is the zero
  output until line 311 fills it; the error of that \<^verbatim>\<open>Fill\<close> is dropped by the source.
\<close>

definition logFailAggregate ::
  "('db, 'p, 'ip, 'cp, 'o) Collaborators \<Rightarrow> 'db \<Rightarrow> string list
     \<Rightarrow> 'o \<times> error option \<times> 'db" where
  "logFailAggregate ops db args =
     (let status = StatusFailed in
      case AssetFromJSON ops args of
        Inl e \<Rightarrow> (zeroOutput ops, Some e, db)
      | Inr inp \<Rightarrow>
          (case GetAggregatetuple ops db (lf_Key inp) of
             Inl e \<Rightarrow> (zeroOutput ops, Some e, db)
           | Inr aggregatetuple0 \<Rightarrow>
               (let aggregatetuple1 =
                      aggregatetuple0\<lparr>Log := Log aggregatetuple0 @ lf_Log inp\<rparr>
                in case validateTupleOwner ops db (Worker aggregatetuple1) of
                     Some e \<Rightarrow> (zeroOutput ops, Some e, db)
                   | None \<Rightarrow>
                       (case commitStatusUpdate ops db aggregatetuple1 (lf_Key inp) status of
                          (Some e, aggregatetuple, db1) \<Rightarrow> (zeroOutput ops, Some e, db1)
                        | (None, aggregatetuple, db1) \<Rightarrow>
                            (let out = snd (Fill ops db1 (zeroOutput ops) aggregatetuple) in
                             if ComputePlanKey aggregatetuple \<noteq> [] then (out, None, db1)
                             else
                               (case UpdateTesttupleChildren ops db1 (lf_Key inp)
                                       (Status aggregatetuple) of
                                  (Some e, db2) \<Rightarrow> (out, Some e, db2)
                                | (None, db2) \<Rightarrow>
                                    (case UpdateTraintupleChildren ops db2 (lf_Key inp)
                                            (outStatus ops out) [] of
                                       (err, db3) \<Rightarrow> (out, err, db3))))))))"

subsection \<open>The parent statuses that SetFromParents accumulates\<close>

text \<open>
  The status that one parent key contributes to \<^verbatim>\<open>parentStatuses\<close>: the status of the
  record found by the lookup of its asset type, and none where that lookup fails. This
  is the reading of "the list of parent statuses accumulated" against which the loop is
  checked.
\<close>

definition parentStatusOf ::
  "('db, 'p, 'ip, 'cp, 'o) Collaborators \<Rightarrow> 'db \<Rightarrow> string \<Rightarrow> string option" where
  "parentStatusOf ops db k =
     (case GetAssetType ops db k of
        Inl e \<Rightarrow> None
      | Inr CompositeTraintupleType \<Rightarrow>
          (case GetCompositeTraintuple ops db k of Inl e \<Rightarrow> None | Inr t \<Rightarrow> Some (ct_Status t))
      | Inr TraintupleType \<Rightarrow>
          (case GetTraintuple ops db k of Inl e \<Rightarrow> None | Inr t \<Rightarrow> Some (tt_Status t))
      | Inr AggregatetupleType \<Rightarrow>
          (case GetAggregatetuple ops db k of Inl e \<Rightarrow> None | Inr t \<Rightarrow> Some (Status t))
      | Inr TesttupleType \<Rightarrow> None)"

definition accumulatedStatuses ::
  "('db, 'p, 'ip, 'cp, 'o) Collaborators \<Rightarrow> 'db \<Rightarrow> string list \<Rightarrow> string list" where
  "accumulatedStatuses ops db ks = List.map_filter (parentStatusOf ops db) ks"

section \<open>An in-memory ledger for concrete runs\<close>

text \<open>
  Modelled from the spec: the collaborators are outside the source file, so concrete
  runs of its functions use a small in-memory ledger that follows the interfaces the
  spec gives for them: records by key, composite-key indexes queried by prefix, emitted
  events, compute plans as member lists created on first reference, permissions as
  lists of grant conditions merged by union, a transition check on the edges of the
  status machine, readiness as "every entry of InModelKeys is done", and the output view
  as the projection of the tuple. The propagation to train and test children is
  recorded as a call (kind, parent key, status) and not carried out.
\<close>

record ExampleLedger =
  el_creator :: string
  el_types :: "(string \<times> AssetType) list"
  el_traintuples :: "(string \<times> string list Traintuple) list"
  el_composites :: "(string \<times> string list CompositeTraintuple) list"
  el_aggregatetuples :: "(string \<times> string list Aggregatetuple) list"
  el_plans :: "(string \<times> (string \<times> string \<times> string) list) list"
  el_index :: "(string \<times> string list) list"
  el_events :: "string list"
  el_propagated :: "(string \<times> string \<times> string) list"

definition notFound :: "string \<Rightarrow> error" where
  "notFound k = ChaincodeError NotFoundKind [ArgS ''no element with key %s'', ArgS k]"

definition lookupAsset :: "(string \<times> 'a) list \<Rightarrow> string \<Rightarrow> error + 'a" where
  "lookupAsset al k = (case map_of al k of None \<Rightarrow> Inl (notFound k) | Some v \<Rightarrow> Inr v)"

definition el_GetStatus :: "ExampleLedger \<Rightarrow> string \<Rightarrow> error + string" where
  "el_GetStatus db k =
     (case lookupAsset (el_types db) k of
        Inl e \<Rightarrow> Inl e
      | Inr TraintupleType \<Rightarrow> map_sum id tt_Status (lookupAsset (el_traintuples db) k)
      | Inr CompositeTraintupleType \<Rightarrow> map_sum id ct_Status (lookupAsset (el_composites db) k)
      | Inr AggregatetupleType \<Rightarrow> map_sum id Status (lookupAsset (el_aggregatetuples db) k)
      | Inr TesttupleType \<Rightarrow> Inl (notFound k))"

fun el_IsReady :: "ExampleLedger \<Rightarrow> string list \<Rightarrow> string \<Rightarrow> error + bool" where
  "el_IsReady db [] newDoneKey = Inr True"
| "el_IsReady db (k # ks) newDoneKey =
     (case el_GetStatus db k of
        Inl e \<Rightarrow> Inl e
      | Inr s \<Rightarrow> if s = StatusDone then el_IsReady db ks newDoneKey else Inr False)"

definition el_checkUpdateTuple ::
  "ExampleLedger \<Rightarrow> string \<Rightarrow> string \<Rightarrow> string \<Rightarrow> error option" where
  "el_checkUpdateTuple db worker oldStatus newStatus =
     (if newStatus = StatusFailed \<or> newStatus = StatusAborted
         \<or> (oldStatus = StatusWaiting \<and> newStatus = StatusTodo)
         \<or> (oldStatus = StatusTodo \<and> newStatus = StatusDoing)
         \<or> (oldStatus = StatusDoing \<and> newStatus = StatusDone)
      then None
      else Some (errors_BadRequest
                   [ArgS ''cannot change status from %s to %s'', ArgS oldStatus,
                    ArgS newStatus]))"

definition el_validateTupleOwner :: "ExampleLedger \<Rightarrow> string \<Rightarrow> error option" where
  "el_validateTupleOwner db worker =
     (if worker = el_creator db then None
      else Some (ChaincodeError ForbiddenKind [ArgS ''%s is not the worker'', ArgS worker]))"

definition el_GetIndexKeys ::
  "ExampleLedger \<Rightarrow> string \<Rightarrow> string list \<Rightarrow> error + string list" where
  "el_GetIndexKeys db name attributes =
     Inr (map (\<lambda>(n, a). last a)
            (filter (\<lambda>(n, a). n = name \<and> take (length attributes) a = attributes)
               (el_index db)))"

definition el_GetComputePlan ::
  "ExampleLedger \<Rightarrow> string \<Rightarrow> error + (string \<times> string \<times> string) list" where
  "el_GetComputePlan db k =
     (case map_of (el_plans db) k of None \<Rightarrow> Inr [] | Some members \<Rightarrow> Inr members)"

definition el_UpdateComputePlanState ::
  "ExampleLedger \<Rightarrow> string \<Rightarrow> string \<Rightarrow> string \<Rightarrow> string \<Rightarrow> error option \<times> ExampleLedger" where
  "el_UpdateComputePlanState db computePlanKey newStatus tupleKey worker =
     (if computePlanKey = [] then (None, db)
      else case map_of (el_plans db) computePlanKey of
        None \<Rightarrow> (Some (notFound computePlanKey), db)
      | Some members \<Rightarrow>
          (None,
           db\<lparr>el_plans :=
                (computePlanKey,
                 map (\<lambda>(k, s, w). if k = tupleKey then (k, newStatus, w) else (k, s, w))
                   members) # el_plans db\<rparr>))"

definition exampleTuple ::
  "string \<Rightarrow> string \<Rightarrow> string \<Rightarrow> string \<Rightarrow> string list \<Rightarrow> string list Aggregatetuple" where
  "exampleTuple k w s cp ims =
     \<lparr>Key = k, AssetType = AggregatetupleType, Creator = ''org1'', Metadata = [], Tag = [],
      ComputePlanKey = cp, AlgoKey = ''algo'', Worker = w, Rank = 0, InModelKeys = ims,
      Status = s, Permissions = [], Log = [], OutModel = None\<rparr>"

definition zeroTuple :: "string list Aggregatetuple" where
  "zeroTuple =
     \<lparr>Key = [], AssetType = TraintupleType, Creator = [], Metadata = [], Tag = [],
      ComputePlanKey = [], AlgoKey = [], Worker = [], Rank = 0, InModelKeys = [],
      Status = [], Permissions = [], Log = [], OutModel = None\<rparr>"

definition exampleOps ::
  "(ExampleLedger, string list, string list, (string \<times> string \<times> string) list,
    string list Aggregatetuple) Collaborators" where
  "exampleOps =
     \<lparr>NewPermissions = (\<lambda>db ip. Inr ip),
      OpenPermissions = [],
      zeroPermissions = [],
      MergePermissions = (\<lambda>x y. remdups (x @ y)),
      GetAssetType = (\<lambda>db k. lookupAsset (el_types db) k),
      GetCompositeTraintuple = (\<lambda>db k. lookupAsset (el_composites db) k),
      GetTraintuple = (\<lambda>db k. lookupAsset (el_traintuples db) k),
      GetAggregatetuple = (\<lambda>db k. lookupAsset (el_aggregatetuples db) k),
      GetIndexKeys = el_GetIndexKeys,
      IsReady = el_IsReady,
      checkUpdateTuple = el_checkUpdateTuple,
      validateTupleOwner = el_validateTupleOwner,
      GetComputePlan = el_GetComputePlan,
      AddTuple = (\<lambda>db cp ty k s w. (None, cp @ [(k, s, w)], db)),
      SaveComputePlan = (\<lambda>db cp k. (None, db\<lparr>el_plans := (k, cp) # el_plans db\<rparr>)),
      UpdateComputePlanState = el_UpdateComputePlanState,
      Add = (\<lambda>db k t.
        if k \<in> set (map fst (el_types db)) then (Some (errors_Conflict [ArgS k]), db)
        else (None, db\<lparr>el_types := el_types db @ [(k, AggregatetupleType)],
                        el_aggregatetuples := el_aggregatetuples db @ [(k, t)]\<rparr>)),
      CreateIndex = (\<lambda>db name attributes.
        (None, db\<lparr>el_index := el_index db @ [(name, attributes)]\<rparr>)),
      Put = (\<lambda>db k t. (None, db\<lparr>el_aggregatetuples := (k, t) # el_aggregatetuples db\<rparr>)),
      UpdateIndex = (\<lambda>db name old new.
        (None, db\<lparr>el_index := (name, new) # remove1 (name, old) (el_index db)\<rparr>)),
      AddTupleEvent = (\<lambda>db k. (None, db\<lparr>el_events := el_events db @ [k]\<rparr>)),
      UpdateTesttupleChildren = (\<lambda>db k s.
        (None, db\<lparr>el_propagated := el_propagated db @ [(''testtuple'', k, s)]\<rparr>)),
      UpdateTraintupleChildren = (\<lambda>db k s done.
        (None, db\<lparr>el_propagated := el_propagated db @ [(''traintuple'', k, s)]\<rparr>)),
      AssetFromJSON = (\<lambda>args. case args of
          [k, l] \<Rightarrow> Inr \<lparr>lf_Key = k, lf_Log = l\<rparr>
        | _ \<Rightarrow> Inl (errors_BadRequest [ArgS ''incorrect number of arguments''])),
      Fill = (\<lambda>db out t. (None, t)),
      zeroOutput = zeroTuple,
      outStatus = Status\<rparr>"

definition exampleLedger :: ExampleLedger where
  "exampleLedger =
     \<lparr>el_creator = ''org1'',
      el_types = [(''t1'', TraintupleType), (''t2'', TraintupleType),
                  (''c1'', CompositeTraintupleType), (''a1'', AggregatetupleType),
                  (''a2'', AggregatetupleType), (''a3'', AggregatetupleType),
                  (''a5'', AggregatetupleType),
                  (''lost'', TraintupleType), (''test1'', TesttupleType)],
      el_traintuples = [(''t1'', \<lparr>tt_Status = StatusDone, tt_Permissions = [''org1'']\<rparr>),
                        (''t2'', \<lparr>tt_Status = StatusDoing, tt_Permissions = [''org2'']\<rparr>)],
      el_composites = [(''c1'', \<lparr>ct_Status = StatusFailed,
                                ct_OutTrunkModel_Permissions = [''org3'']\<rparr>)],
      el_aggregatetuples =
        [(''a1'', exampleTuple ''a1'' ''org1'' StatusDoing [] [''t1'']),
         (''a2'', exampleTuple ''a2'' ''org1'' StatusWaiting [] [''t1'', ''a1'']),
         (''a3'', exampleTuple ''a3'' ''org1'' StatusDoing ''plan1'' [''t1'']),
         (''a5'', exampleTuple ''a5'' ''org1'' StatusWaiting [] [''t1''])],
      el_plans = [(''plan1'', [(''a3'', StatusDoing, ''org1'')])],
      el_index = [(''computePlan~computeplankey~worker~rank~key'',
                   [''computePlan'', ''plan1'', ''org1'', ''0'', ''a3''])],
      el_events = [],
      el_propagated = []\<rparr>"

definition exampleInput :: "string \<Rightarrow> string \<Rightarrow> inputAggregatetuple" where
  "exampleInput computePlanKey rank =
     \<lparr>inp_Key = ''n'', inp_AlgoKey = ''algo'', inp_InModels = [],
      inp_ComputePlanKey = computePlanKey, inp_Metadata = [], inp_Rank = rank,
      inp_Tag = [], inp_Worker = ''org1''\<rparr>"

text \<open>The example ledger after \<^verbatim>\<open>commitStatusUpdate\<close> took a new tuple \<^verbatim>\<open>a4\<close> from todo to doing.\<close>

definition ledgerAfterStart :: ExampleLedger where
  "ledgerAfterStart =
     exampleLedger
       \<lparr>el_aggregatetuples :=
          (''a4'', exampleTuple ''a4'' ''org1'' StatusDoing [] []) # el_aggregatetuples exampleLedger,
        el_index :=
          (''aggregatetuple~worker~status~key'', [''aggregatetuple'', ''org1'', StatusDoing, ''a4''])
            # el_index exampleLedger\<rparr>"

text \<open>
  The example ledger after a new tuple \<^verbatim>\<open>n\<close> of worker \<^verbatim>\<open>org1\<close>, in status todo, was
  added to the compute plan \<^verbatim>\<open>plan1\<close> and the plan saved.
\<close>

definition ledgerAfterPlanSave :: ExampleLedger where
  "ledgerAfterPlanSave =
     exampleLedger
       \<lparr>el_plans :=
          (''plan1'', [(''a3'', StatusDoing, ''org1''), (''n'', StatusTodo, ''org1'')])
            # el_plans exampleLedger\<rparr>"

section \<open>Properties\<close>

subsection \<open>Status constants\<close>

lemma status_distinct:
  "StatusFailed \<noteq> StatusAborted" "StatusTodo \<noteq> StatusAborted"
  "StatusFailed \<noteq> []" "StatusTodo \<noteq> []" "StatusFailed \<noteq> StatusDone"
  "StatusFailed \<noteq> StatusTodo" "StatusWaiting \<noteq> StatusTodo"
  "StatusFailed \<noteq> StatusWaiting"
  by (simp_all add: StatusFailed_def StatusAborted_def StatusTodo_def StatusDone_def
        StatusWaiting_def)

subsection \<open>SetFromParents\<close>

lemma parentSwitch_statuses:
  assumes "GetAssetType ops db k = Inr ty"
    and "parentSwitch ops db k ty sts = Inr (p, sts')"
  shows "sts' = sts @ (case parentStatusOf ops db k of None \<Rightarrow> [] | Some s \<Rightarrow> [s])"
  using assms
  by (cases ty) (auto simp: parentSwitch_def parentStatusOf_def split: sum.splits)

lemma parentsLoop_accumulates:
  "parentsLoop ops db ks (sts, keys, p) = Inr (sts', keys', p')
   \<Longrightarrow> sts' = sts @ accumulatedStatuses ops db ks \<and> keys' = keys @ ks"
proof (induction ks arbitrary: sts keys p)
  case Nil
  then show ?case by (simp add: accumulatedStatuses_def)
next
  case (Cons k ks)
  from Cons.prems obtain ty where ty: "GetAssetType ops db k = Inr ty"
    by (auto split: sum.splits)
  with Cons.prems obtain pp sts1 where
    sw: "parentSwitch ops db k ty sts = Inr (pp, sts1)" and
    rest: "parentsLoop ops db ks (sts1, keys @ [k], MergePermissions ops p pp)
             = Inr (sts', keys', p')"
    by (auto split: sum.splits)
  from Cons.IH [OF rest] parentSwitch_statuses [OF ty sw]
  show ?case
    by (simp add: accumulatedStatuses_def map_filter_simps split: option.splits)
qed

text \<open>
  C1. Whenever \<^verbatim>\<open>SetFromParents\<close> succeeds, the status it gives the tuple follows the
  precedence over the parent statuses it accumulated: failed if one of them is failed,
  else todo if all of them are done, else waiting.
\<close>

theorem SetFromParents_status_precedence:
  assumes "SetFromParents ops db tuple inModels = (None, tuple')"
  shows "Status tuple' =
           (if StatusFailed \<in> set (accumulatedStatuses ops db inModels) then StatusFailed
            else if (\<forall>s \<in> set (accumulatedStatuses ops db inModels). s = StatusDone)
              then StatusTodo
            else StatusWaiting)"
proof -
  from assms obtain perm sts keys perm' where
    loop: "parentsLoop ops db inModels ([], InModelKeys tuple, perm) = Inr (sts, keys, perm')"
    and t': "tuple' = tuple\<lparr>Status := determineStatusFromInModels sts, InModelKeys := keys,
                             Permissions := perm'\<rparr>"
    by (auto simp: SetFromParents_def split: sum.splits)
  from parentsLoop_accumulates [OF loop]
  have "sts = accumulatedStatuses ops db inModels" by simp
  with t' show ?thesis
    by (simp add: determineStatusFromInModels_def list_all_iff)
qed

lemmas example_simps =
  exampleOps_def exampleLedger_def exampleTuple_def zeroTuple_def lookupAsset_def
  notFound_def el_GetStatus_def el_checkUpdateTuple_def el_validateTupleOwner_def
  el_GetIndexKeys_def el_GetComputePlan_def el_UpdateComputePlanState_def
  StatusWaiting_def StatusTodo_def StatusDoing_def StatusDone_def StatusFailed_def
  StatusAborted_def errors_BadRequest_def errors_Internal_def errors_Conflict_def

lemma example_SetFromParents_t1_t2:
  "SetFromParents exampleOps exampleLedger (exampleTuple ''n'' ''org1'' [] [] [])
     [''t1'', ''t2'']
   = (None, (exampleTuple ''n'' ''org1'' StatusWaiting [] [''t1'', ''t2''])
              \<lparr>Permissions := [''org1'', ''org2'']\<rparr>)"
  by (simp add: SetFromParents_def parentSwitch_def determineStatusFromInModels_def
        example_simps)

theorem SetFromParents_status_precedence_witness:
  "SetFromParents exampleOps exampleLedger (exampleTuple ''n'' ''org1'' [] [] [])
     [''t1'', ''t2'']
   = (None, (exampleTuple ''n'' ''org1'' StatusWaiting [] [''t1'', ''t2''])
              \<lparr>Permissions := [''org1'', ''org2'']\<rparr>)
   \<and> accumulatedStatuses exampleOps exampleLedger [''t1'', ''t2''] = [StatusDone, StatusDoing]
   \<and> Status ((exampleTuple ''n'' ''org1'' StatusWaiting [] [''t1'', ''t2''])
              \<lparr>Permissions := [''org1'', ''org2'']\<rparr>) = StatusWaiting"
  using SetFromParents_status_precedence [OF example_SetFromParents_t1_t2]
  by (simp add: SetFromParents_def parentSwitch_def determineStatusFromInModels_def
        accumulatedStatuses_def parentStatusOf_def example_simps)

text \<open>
  C9. With an empty parent list, and the open baseline generated, \<^verbatim>\<open>SetFromParents\<close>
  succeeds, sets the status to todo and the permissions to the baseline, and leaves
  \<^verbatim>\<open>InModelKeys\<close> as it was.
\<close>

theorem SetFromParents_no_parents:
  assumes "NewPermissions ops db (OpenPermissions ops) = Inr openPermissions"
  shows "SetFromParents ops db tuple [] =
           (None, tuple\<lparr>Status := StatusTodo, Permissions := openPermissions\<rparr>)
         \<and> InModelKeys (snd (SetFromParents ops db tuple [])) = InModelKeys tuple"
  using assms
  by (simp add: SetFromParents_def determineStatusFromInModels_def)

theorem SetFromParents_no_parents_witness:
  "NewPermissions exampleOps exampleLedger (OpenPermissions exampleOps) = Inr []
   \<and> SetFromParents exampleOps exampleLedger (exampleTuple ''n'' ''org1'' [] [] [''kept'']) []
       = (None, exampleTuple ''n'' ''org1'' StatusTodo [] [''kept''])
   \<and> InModelKeys (snd (SetFromParents exampleOps exampleLedger
         (exampleTuple ''n'' ''org1'' [] [] [''kept'']) [])) = [''kept'']"
proof -
  have h: "NewPermissions exampleOps exampleLedger (OpenPermissions exampleOps) = Inr []"
    by (simp add: exampleOps_def)
  show ?thesis
    using h SetFromParents_no_parents
      [OF h, of "exampleTuple ''n'' ''org1'' [] [] [''kept'']"]
    by (simp add: exampleTuple_def)
qed

text \<open>
  A parent whose asset type resolves and whose kind-specific lookup fails: the clause of
  the switch keeps the error to itself, line 105 tests the other \<^verbatim>\<open>err\<close>, and the loop
  goes on. The parent contributes no status and the zero permissions, and its key is
  appended all the same.
\<close>

lemma parentSwitch_drops_lookup_error:
  assumes "parentType \<noteq> TesttupleType"
  shows "\<exists>parentPermissions parentStatuses'.
           parentSwitch ops db k parentType parentStatuses
             = Inr (parentPermissions, parentStatuses')"
  using assms by (cases parentType) (auto simp: parentSwitch_def split: sum.splits)

lemma parentsLoop_step_never_fails_on_lookup:
  assumes "GetAssetType ops db k = Inr parentType"
    and "parentType \<noteq> TesttupleType"
  shows "\<exists>parentPermissions parentStatuses'.
           parentsLoop ops db (k # ks) (sts, keys, p) =
             parentsLoop ops db ks
               (parentStatuses', keys @ [k], MergePermissions ops p parentPermissions)"
  using parentSwitch_drops_lookup_error [OF assms(2), of ops db k sts] assms(1)
  by fastforce

lemma parentsLoop_unfetched_train_parent:
  assumes "GetAssetType ops db k = Inr TraintupleType"
    and "GetTraintuple ops db k = Inl e"
  shows "parentsLoop ops db (k # ks) (sts, keys, p) =
           parentsLoop ops db ks (sts, keys @ [k], MergePermissions ops p (zeroPermissions ops))"
  using assms by (simp add: parentSwitch_def)

lemma SetFromParents_unfetched_train_parent:
  assumes "NewPermissions ops db (OpenPermissions ops) = Inr p"
    and "GetAssetType ops db k = Inr TraintupleType"
    and "GetTraintuple ops db k = Inl e"
  shows "SetFromParents ops db tuple [k] =
           (None, tuple\<lparr>Status := StatusTodo, InModelKeys := InModelKeys tuple @ [k],
                        Permissions := MergePermissions ops p (zeroPermissions ops)\<rparr>)"
  using assms
  by (simp add: SetFromParents_def parentSwitch_def determineStatusFromInModels_def)

text \<open>
  C4. On the example ledger the key \<^verbatim>\<open>lost\<close> has the asset type of a train tuple and no
  train tuple record. \<^verbatim>\<open>SetFromParents\<close> returns no error for it: the new tuple is todo
  and lists \<^verbatim>\<open>lost\<close> among its in-models.
\<close>

theorem SetFromParents_lost_parent_no_error:
  "GetAssetType exampleOps exampleLedger ''lost'' = Inr TraintupleType
   \<and> GetTraintuple exampleOps exampleLedger ''lost'' = Inl (notFound ''lost'')
   \<and> SetFromParents exampleOps exampleLedger (exampleTuple ''n'' ''org1'' [] [] []) [''lost'']
       = (None, exampleTuple ''n'' ''org1'' StatusTodo [] [''lost''])"
  by (simp add: SetFromParents_def parentSwitch_def determineStatusFromInModels_def
        example_simps)

subsection \<open>commitStatusUpdate\<close>

lemma commitStatusUpdate_same_status:
  "Status tuple = s \<Longrightarrow> commitStatusUpdate ops db tuple key s = (None, tuple, db)"
  by (simp add: commitStatusUpdate_def)

lemma commitStatusUpdate_result_cases:
  assumes "commitStatusUpdate ops db tuple key s = (err, tuple', db')"
  shows "(tuple' = tuple \<and> db' = db) \<or> Status tuple' = s"
  using assms
  by (auto simp: commitStatusUpdate_def Let_def split: if_splits option.splits prod.splits)

lemma commitStatusUpdate_success_cases:
  assumes "commitStatusUpdate ops db tuple key s = (None, tuple', db')"
  shows "Status tuple' = s
         \<or> (s = StatusAborted \<and> Status tuple \<noteq> StatusWaiting \<and> tuple' = tuple \<and> db' = db)"
  using assms
  by (auto simp: commitStatusUpdate_def Let_def split: if_splits option.splits prod.splits)

lemma commitStatusUpdate_keeps_plan:
  assumes "commitStatusUpdate ops db tuple key s = (err, tuple', db')"
  shows "ComputePlanKey tuple' = ComputePlanKey tuple \<and> Worker tuple' = Worker tuple"
  using assms
  by (auto simp: commitStatusUpdate_def Let_def split: if_splits option.splits prod.splits)

text \<open>
  C7. A call of \<^verbatim>\<open>commitStatusUpdate\<close> whose target is the tuple's status returns nil and
  leaves tuple and ledger as they are. So does the second of two calls with the same
  target: it changes neither the tuple nor the ledger, and returns nil whenever the first
  call did.
\<close>

theorem commitStatusUpdate_idempotent:
  "(Status tuple = s \<longrightarrow> commitStatusUpdate ops db tuple key s = (None, tuple, db))
   \<and> (commitStatusUpdate ops db tuple key s = (err, tuple', db') \<longrightarrow>
        snd (commitStatusUpdate ops db' tuple' key s) = (tuple', db')
        \<and> (err = None \<longrightarrow> commitStatusUpdate ops db' tuple' key s = (None, tuple', db')))"
proof (intro conjI impI)
  assume "Status tuple = s"
  then show "commitStatusUpdate ops db tuple key s = (None, tuple, db)"
    by (rule commitStatusUpdate_same_status)
next
  assume first: "commitStatusUpdate ops db tuple key s = (err, tuple', db')"
  from commitStatusUpdate_result_cases [OF first]
  show "snd (commitStatusUpdate ops db' tuple' key s) = (tuple', db')"
  proof
    assume "tuple' = tuple \<and> db' = db"
    with first show ?thesis by simp
  next
    assume "Status tuple' = s"
    then show ?thesis by (simp add: commitStatusUpdate_same_status)
  qed
next
  assume first: "commitStatusUpdate ops db tuple key s = (err, tuple', db')"
    and "err = None"
  then have ok: "commitStatusUpdate ops db tuple key s = (None, tuple', db')" by simp
  from commitStatusUpdate_success_cases [OF ok]
  show "commitStatusUpdate ops db' tuple' key s = (None, tuple', db')"
  proof
    assume "Status tuple' = s"
    then show ?thesis by (rule commitStatusUpdate_same_status)
  next
    assume "s = StatusAborted \<and> Status tuple \<noteq> StatusWaiting \<and> tuple' = tuple \<and> db' = db"
    with ok show ?thesis by simp
  qed
qed

lemma example_commit_start:
  "commitStatusUpdate exampleOps exampleLedger (exampleTuple ''a4'' ''org1'' StatusTodo [] [])
     ''a4'' StatusDoing
   = (None, exampleTuple ''a4'' ''org1'' StatusDoing [] [], ledgerAfterStart)"
  by (simp add: commitStatusUpdate_def validateNewStatus_def ledgerAfterStart_def
        Let_def example_simps)

theorem commitStatusUpdate_idempotent_witness:
  "commitStatusUpdate exampleOps exampleLedger (exampleTuple ''a4'' ''org1'' StatusTodo [] [])
     ''a4'' StatusDoing
   = (None, exampleTuple ''a4'' ''org1'' StatusDoing [] [], ledgerAfterStart)
   \<and> Status (exampleTuple ''a4'' ''org1'' StatusDoing [] []) = StatusDoing
   \<and> commitStatusUpdate exampleOps ledgerAfterStart (exampleTuple ''a4'' ''org1'' StatusDoing [] [])
       ''a4'' StatusDoing
     = (None, exampleTuple ''a4'' ''org1'' StatusDoing [] [], ledgerAfterStart)"
  using example_commit_start
    commitStatusUpdate_idempotent
      [of "exampleTuple ''a4'' ''org1'' StatusTodo [] []" StatusDoing exampleOps exampleLedger
          "''a4''" None "exampleTuple ''a4'' ''org1'' StatusDoing [] []" ledgerAfterStart]
  by (simp add: exampleTuple_def)

text \<open>
  C8. For a tuple that is not waiting, \<^verbatim>\<open>commitStatusUpdate\<close> with target aborted returns
  nil and leaves the tuple and the ledger unchanged.
\<close>

theorem commitStatusUpdate_abort_needs_waiting:
  assumes "Status tuple \<noteq> StatusWaiting"
  shows "commitStatusUpdate ops db tuple key StatusAborted = (None, tuple, db)"
  using assms by (simp add: commitStatusUpdate_def)

theorem commitStatusUpdate_abort_needs_waiting_witness:
  "Status (exampleTuple ''a1'' ''org1'' StatusDoing [] [''t1'']) \<noteq> StatusWaiting
   \<and> commitStatusUpdate exampleOps exampleLedger (exampleTuple ''a1'' ''org1'' StatusDoing [] [''t1''])
       ''a1'' StatusAborted
     = (None, exampleTuple ''a1'' ''org1'' StatusDoing [] [''t1''], exampleLedger)"
proof -
  have h: "Status (exampleTuple ''a1'' ''org1'' StatusDoing [] [''t1'']) \<noteq> StatusWaiting"
    by (simp add: exampleTuple_def StatusDoing_def StatusWaiting_def)
  show ?thesis
    using h commitStatusUpdate_abort_needs_waiting [OF h, of exampleOps exampleLedger "''a1''"]
    by simp
qed

subsection \<open>UpdateAggregatetupleChild\<close>

text \<open>
  C2. For a child that the ledger returns: a failed parent makes failed the child's new
  status; a done parent makes it todo when \<^verbatim>\<open>isReady\<close> holds, which is \<^verbatim>\<open>IsReady\<close> on the
  child's \<^verbatim>\<open>InModelKeys\<close>; otherwise no status is determined and the child's status is
  returned with the ledger untouched. A determined status goes through
  \<^verbatim>\<open>commitStatusUpdate\<close>, and once that returns nil the tuple event of the child is
  emitted on the ledger the commit left. A call that returns nil after a failed parent
  returns failed, after a done parent with a ready child todo.
\<close>

theorem UpdateAggregatetupleChild_new_status:
  assumes "GetAggregatetuple ops db childKey = Inr child"
  shows
    "isReady ops db child parentKey = IsReady ops db (InModelKeys child) parentKey
     \<and> (parentStatus = StatusFailed \<longrightarrow>
          UpdateAggregatetupleChild ops db parentKey childKey parentStatus =
            (case commitStatusUpdate ops db child childKey StatusFailed of
               (Some e, child1, db1) \<Rightarrow> (Status child, Some e, db1)
             | (None, child1, db1) \<Rightarrow> (Status child1, AddTupleEvent ops db1 childKey)))
     \<and> (parentStatus = StatusDone \<and> isReady ops db child parentKey = Inr True \<longrightarrow>
          UpdateAggregatetupleChild ops db parentKey childKey parentStatus =
            (case commitStatusUpdate ops db child childKey StatusTodo of
               (Some e, child1, db1) \<Rightarrow> (Status child, Some e, db1)
             | (None, child1, db1) \<Rightarrow> (Status child1, AddTupleEvent ops db1 childKey)))
     \<and> (parentStatus = StatusDone \<and> isReady ops db child parentKey = Inr False \<longrightarrow>
          UpdateAggregatetupleChild ops db parentKey childKey parentStatus =
            (Status child, None, db))
     \<and> (parentStatus \<noteq> StatusFailed \<and> parentStatus \<noteq> StatusDone \<longrightarrow>
          UpdateAggregatetupleChild ops db parentKey childKey parentStatus =
            (Status child, None, db))
     \<and> (UpdateAggregatetupleChild ops db parentKey childKey parentStatus = (childStatus, None, db')
          \<and> parentStatus = StatusFailed \<longrightarrow> childStatus = StatusFailed)
     \<and> (UpdateAggregatetupleChild ops db parentKey childKey parentStatus = (childStatus, None, db')
          \<and> parentStatus = StatusDone \<and> isReady ops db child parentKey = Inr True
          \<longrightarrow> childStatus = StatusTodo)"
proof -
  have failed:
    "UpdateAggregatetupleChild ops db parentKey childKey StatusFailed =
       (case commitStatusUpdate ops db child childKey StatusFailed of
          (Some e, child1, db1) \<Rightarrow> (Status child, Some e, db1)
        | (None, child1, db1) \<Rightarrow> (Status child1, AddTupleEvent ops db1 childKey))"
    using assms
    by (auto simp: UpdateAggregatetupleChild_def childNewStatus_def status_distinct
          split: prod.splits option.splits)
  have todo:
    "UpdateAggregatetupleChild ops db parentKey childKey StatusDone =
       (case commitStatusUpdate ops db child childKey StatusTodo of
          (Some e, child1, db1) \<Rightarrow> (Status child, Some e, db1)
        | (None, child1, db1) \<Rightarrow> (Status child1, AddTupleEvent ops db1 childKey))"
    if "isReady ops db child parentKey = Inr True"
    using assms that
    by (auto simp: UpdateAggregatetupleChild_def childNewStatus_def status_distinct
          status_distinct [symmetric] split: prod.splits option.splits)
  have unready:
    "UpdateAggregatetupleChild ops db parentKey childKey StatusDone = (Status child, None, db)"
    if "isReady ops db child parentKey = Inr False"
    using assms that
    by (simp add: UpdateAggregatetupleChild_def childNewStatus_def
          status_distinct [symmetric])
  have other:
    "UpdateAggregatetupleChild ops db parentKey childKey parentStatus = (Status child, None, db)"
    if "parentStatus \<noteq> StatusFailed" "parentStatus \<noteq> StatusDone"
    using assms that by (simp add: UpdateAggregatetupleChild_def childNewStatus_def)
  have committed: "cs = ns"
    if "(case commitStatusUpdate ops db child childKey ns of
           (Some e, child1, db1) \<Rightarrow> (Status child, Some e, db1)
         | (None, child1, db1) \<Rightarrow> (Status child1, AddTupleEvent ops db1 childKey))
        = (cs, None, d)" and "ns \<noteq> StatusAborted" for cs ns d
  proof -
    from that(1) obtain child1 db1 where
      ok: "commitStatusUpdate ops db child childKey ns = (None, child1, db1)"
      and cs: "cs = Status child1"
      by (auto split: prod.splits option.splits)
    from commitStatusUpdate_success_cases [OF ok] that(2) cs show ?thesis by auto
  qed
  show ?thesis
    using failed todo unready other committed [of StatusFailed childStatus db']
      committed [of StatusTodo childStatus db'] status_distinct(1,2)
    by (auto simp: isReady_def)
qed
lemma example_child_a2:
  "GetAggregatetuple exampleOps exampleLedger ''a2''
   = Inr (exampleTuple ''a2'' ''org1'' StatusWaiting [] [''t1'', ''a1''])"
  by (simp add: exampleOps_def exampleLedger_def lookupAsset_def)

lemma example_child_a5:
  "GetAggregatetuple exampleOps exampleLedger ''a5''
   = Inr (exampleTuple ''a5'' ''org1'' StatusWaiting [] [''t1''])"
  by (simp add: exampleOps_def exampleLedger_def lookupAsset_def)

lemmas child_simps =
  UpdateAggregatetupleChild_def childNewStatus_def isReady_def commitStatusUpdate_def
  validateNewStatus_def Let_def

theorem UpdateAggregatetupleChild_new_status_witness:
  "GetAggregatetuple exampleOps exampleLedger ''a2''
     = Inr (exampleTuple ''a2'' ''org1'' StatusWaiting [] [''t1'', ''a1''])
   \<and> fst (UpdateAggregatetupleChild exampleOps exampleLedger ''a1'' ''a2'' StatusFailed)
       = StatusFailed
   \<and> fst (snd (UpdateAggregatetupleChild exampleOps exampleLedger ''a1'' ''a2'' StatusFailed))
       = None
   \<and> el_events (snd (snd (UpdateAggregatetupleChild exampleOps exampleLedger ''a1'' ''a2''
         StatusFailed))) = [''a2'']
   \<and> isReady exampleOps exampleLedger
         (exampleTuple ''a2'' ''org1'' StatusWaiting [] [''t1'', ''a1'']) ''t1'' = Inr False
   \<and> UpdateAggregatetupleChild exampleOps exampleLedger ''t1'' ''a2'' StatusDone
       = (StatusWaiting, None, exampleLedger)
   \<and> GetAggregatetuple exampleOps exampleLedger ''a5''
       = Inr (exampleTuple ''a5'' ''org1'' StatusWaiting [] [''t1''])
   \<and> isReady exampleOps exampleLedger
         (exampleTuple ''a5'' ''org1'' StatusWaiting [] [''t1'']) ''t1'' = Inr True
   \<and> fst (UpdateAggregatetupleChild exampleOps exampleLedger ''t1'' ''a5'' StatusDone)
       = StatusTodo
   \<and> el_events (snd (snd (UpdateAggregatetupleChild exampleOps exampleLedger ''t1'' ''a5''
         StatusDone))) = [''a5'']"
  using
    UpdateAggregatetupleChild_new_status
      [OF example_child_a2, of "''a1''" StatusFailed StatusFailed exampleLedger]
    UpdateAggregatetupleChild_new_status
      [OF example_child_a2, of "''t1''" StatusDone StatusWaiting exampleLedger]
    UpdateAggregatetupleChild_new_status
      [OF example_child_a5, of "''t1''" StatusDone StatusTodo exampleLedger]
  by (simp add: child_simps example_simps)

subsection \<open>logFailAggregate\<close>

lemma commitStatusUpdate_ignores_children_updates:
  "commitStatusUpdate (ops\<lparr>UpdateTesttupleChildren := f, UpdateTraintupleChildren := g\<rparr>)
     db tuple key s
   = commitStatusUpdate ops db tuple key s"
  by (simp add: commitStatusUpdate_def validateNewStatus_def Let_def
        split: option.splits prod.splits)

lemma commitStatusUpdate_failed_status:
  assumes "commitStatusUpdate ops db tuple key StatusFailed = (None, tuple', db')"
  shows "Status tuple' = StatusFailed"
  using commitStatusUpdate_success_cases [OF assms] status_distinct(1) by auto

text \<open>
  C3. A fail action that returns nil has committed the failed status. If the tuple has a
  compute-plan key, the ledger returned is the one the commit left, whatever the two
  functions that update children are: they are not called. If it has none, the test
  children are updated with the failed status on the ledger the commit left, then the
  train children with the status of the output view, and both calls returned nil; that
  status is failed when the output view shows the status of the tuple it is filled with.
\<close>

theorem logFailAggregate_propagation:
  assumes "AssetFromJSON ops args = Inr inp"
    and "GetAggregatetuple ops db (lf_Key inp) = Inr stored"
    and "logFailAggregate ops db args = (out, None, db')"
  shows
    "\<exists>tuple db1.
       commitStatusUpdate ops db (stored\<lparr>Log := Log stored @ lf_Log inp\<rparr>) (lf_Key inp)
         StatusFailed = (None, tuple, db1)
       \<and> Status tuple = StatusFailed
       \<and> out = snd (Fill ops db1 (zeroOutput ops) tuple)
       \<and> (ComputePlanKey stored \<noteq> [] \<longrightarrow>
            db' = db1
            \<and> (\<forall>f g. logFailAggregate
                   (ops\<lparr>UpdateTesttupleChildren := f, UpdateTraintupleChildren := g\<rparr>) db args
                 = (out, None, db1)))
       \<and> (ComputePlanKey stored = [] \<longrightarrow>
            (\<exists>db2. UpdateTesttupleChildren ops db1 (lf_Key inp) StatusFailed = (None, db2)
                 \<and> UpdateTraintupleChildren ops db2 (lf_Key inp) (outStatus ops out) []
                     = (None, db')
                 \<and> (outStatus ops (snd (Fill ops db1 (zeroOutput ops) tuple)) = Status tuple
                      \<longrightarrow> UpdateTraintupleChildren ops db2 (lf_Key inp) StatusFailed []
                            = (None, db'))))"
proof -
  let ?t1 = "stored\<lparr>Log := Log stored @ lf_Log inp\<rparr>"
  from assms obtain tuple db1 where
    commit: "commitStatusUpdate ops db ?t1 (lf_Key inp) StatusFailed = (None, tuple, db1)"
    by (auto simp: logFailAggregate_def Let_def split: option.splits prod.splits if_splits)
  have st: "Status tuple = StatusFailed"
    by (rule commitStatusUpdate_failed_status [OF commit])
  have plan: "ComputePlanKey tuple = ComputePlanKey stored"
    using commitStatusUpdate_keeps_plan [OF commit] by simp
  have out: "out = snd (Fill ops db1 (zeroOutput ops) tuple)"
    using assms commit
    by (auto simp: logFailAggregate_def Let_def split: option.splits prod.splits if_splits)
  have inplan: "db' = db1
      \<and> (\<forall>f g. logFailAggregate
             (ops\<lparr>UpdateTesttupleChildren := f, UpdateTraintupleChildren := g\<rparr>) db args
           = (out, None, db1))"
    if "ComputePlanKey stored \<noteq> []"
    using assms commit that plan out
    by (auto simp: logFailAggregate_def Let_def commitStatusUpdate_ignores_children_updates
          split: option.splits prod.splits if_splits)
  have noplan:
    "\<exists>db2. UpdateTesttupleChildren ops db1 (lf_Key inp) StatusFailed = (None, db2)
        \<and> UpdateTraintupleChildren ops db2 (lf_Key inp) (outStatus ops out) [] = (None, db')"
    if "ComputePlanKey stored = []"
    using assms commit that plan out st
    by (auto simp: logFailAggregate_def Let_def split: option.splits prod.splits if_splits)
  show ?thesis
    using commit st out inplan noplan by (intro exI [of _ tuple] exI [of _ db1]) auto
qed
lemma example_fail_input:
  "AssetFromJSON exampleOps [k, l] = Inr \<lparr>lf_Key = k, lf_Log = l\<rparr>"
  by (simp add: exampleOps_def)

lemma example_stored_a1:
  "GetAggregatetuple exampleOps exampleLedger (lf_Key \<lparr>lf_Key = ''a1'', lf_Log = ''oom''\<rparr>)
   = Inr (exampleTuple ''a1'' ''org1'' StatusDoing [] [''t1''])"
  by (simp add: exampleOps_def exampleLedger_def lookupAsset_def)

lemma example_stored_a3:
  "GetAggregatetuple exampleOps exampleLedger (lf_Key \<lparr>lf_Key = ''a3'', lf_Log = ''oom''\<rparr>)
   = Inr (exampleTuple ''a3'' ''org1'' StatusDoing ''plan1'' [''t1''])"
  by (simp add: exampleOps_def exampleLedger_def lookupAsset_def)

lemmas fail_simps =
  logFailAggregate_def commitStatusUpdate_def validateNewStatus_def Let_def

lemma example_fail_a1:
  "fst (snd (logFailAggregate exampleOps exampleLedger [''a1'', ''oom''])) = None
   \<and> Status (fst (logFailAggregate exampleOps exampleLedger [''a1'', ''oom''])) = StatusFailed
   \<and> Log (fst (logFailAggregate exampleOps exampleLedger [''a1'', ''oom''])) = ''oom''
   \<and> el_propagated (snd (snd (logFailAggregate exampleOps exampleLedger [''a1'', ''oom''])))
       = [(''testtuple'', ''a1'', StatusFailed), (''traintuple'', ''a1'', StatusFailed)]"
  by (simp add: fail_simps example_simps)

lemma example_fail_a3:
  "fst (snd (logFailAggregate exampleOps exampleLedger [''a3'', ''oom''])) = None
   \<and> Status (fst (logFailAggregate exampleOps exampleLedger [''a3'', ''oom''])) = StatusFailed
   \<and> el_propagated (snd (snd (logFailAggregate exampleOps exampleLedger [''a3'', ''oom''])))
       = []"
  by (simp add: fail_simps example_simps)

theorem logFailAggregate_propagation_witness:
  "AssetFromJSON exampleOps [''a1'', ''oom''] = Inr \<lparr>lf_Key = ''a1'', lf_Log = ''oom''\<rparr>
   \<and> GetAggregatetuple exampleOps exampleLedger ''a1''
       = Inr (exampleTuple ''a1'' ''org1'' StatusDoing [] [''t1''])
   \<and> fst (snd (logFailAggregate exampleOps exampleLedger [''a1'', ''oom''])) = None
   \<and> el_propagated (snd (snd (logFailAggregate exampleOps exampleLedger [''a1'', ''oom''])))
       = [(''testtuple'', ''a1'', StatusFailed), (''traintuple'', ''a1'', StatusFailed)]
   \<and> GetAggregatetuple exampleOps exampleLedger ''a3''
       = Inr (exampleTuple ''a3'' ''org1'' StatusDoing ''plan1'' [''t1''])
   \<and> fst (snd (logFailAggregate exampleOps exampleLedger [''a3'', ''oom''])) = None
   \<and> el_propagated (snd (snd (logFailAggregate exampleOps exampleLedger [''a3'', ''oom''])))
       = []"
proof -
  let ?r1 = "logFailAggregate exampleOps exampleLedger [''a1'', ''oom'']"
  let ?r3 = "logFailAggregate exampleOps exampleLedger [''a3'', ''oom'']"
  have r1: "?r1 = (fst ?r1, None, snd (snd ?r1))"
    using example_fail_a1 by (metis prod.collapse)
  have r3: "?r3 = (fst ?r3, None, snd (snd ?r3))"
    using example_fail_a3 by (metis prod.collapse)
  note w1 = logFailAggregate_propagation [OF example_fail_input example_stored_a1 r1]
  note w3 = logFailAggregate_propagation [OF example_fail_input example_stored_a3 r3]
  show ?thesis
    using w1 w3 example_fail_a1 example_fail_a3 example_stored_a1 example_stored_a3
    by (simp add: example_fail_input)
qed

subsection \<open>AddToComputePlan\<close>

lemma AddToComputePlan_up_to_save:
  assumes "inp_Rank inp \<noteq> []"
    and "Atoi (inp_Rank inp) = (rank, None)"
    and "GetComputePlan ops db (inp_ComputePlanKey inp) = Inr computePlan"
    and "AddTuple ops db computePlan AggregatetupleType traintupleKey (Status tuple)
           (Worker tuple) = (None, computePlan1, db1)"
    and "SaveComputePlan ops db1 computePlan1 (inp_ComputePlanKey inp) = (None, db2)"
  shows "AddToComputePlan ops db tuple inp traintupleKey check =
           (if \<not> check
            then (None, tuple\<lparr>Rank := rank, ComputePlanKey := inp_ComputePlanKey inp\<rparr>, db2)
            else
              (case GetIndexKeys ops db2 ''computePlan~computeplankey~worker~rank~key''
                      [''computePlan'', inp_ComputePlanKey inp, Worker tuple, inp_Rank inp] of
                 Inl e \<Rightarrow>
                   (Some e, tuple\<lparr>Rank := rank, ComputePlanKey := inp_ComputePlanKey inp\<rparr>,
                    db2)
               | Inr ttKeys \<Rightarrow>
                   if ttKeys \<noteq> [] then
                     (Some (errors_BadRequest
                              [ArgS ''ComputePlanKey %s with worker %s rank %d already exists'',
                               ArgS (inp_ComputePlanKey inp), ArgS (Worker tuple), ArgI rank]),
                      tuple\<lparr>Rank := rank, ComputePlanKey := inp_ComputePlanKey inp\<rparr>, db2)
                   else
                     (None, tuple\<lparr>Rank := rank, ComputePlanKey := inp_ComputePlanKey inp\<rparr>,
                      db2)))"
  using assms by (simp add: AddToComputePlan_def Let_def split: sum.splits)

lemma AddToComputePlan_unchecked_ignores_index:
  "AddToComputePlan (ops\<lparr>GetIndexKeys := g\<rparr>) db tuple inp traintupleKey False
   = AddToComputePlan ops db tuple inp traintupleKey False"
  by (simp add: AddToComputePlan_def Let_def split: sum.splits option.splits prod.splits)

subsection \<open>Atoi reads what Itoa writes\<close>

lemma digitsOf_nonempty: "digitsOf n \<noteq> []"
  by (subst digitsOf.simps) simp

lemma Itoa_nonempty: "Itoa i \<noteq> []"
  by (simp add: Itoa_def digitsOf_nonempty)

lemma digitOf_digit:
  assumes "0 \<le> d" and "d < 10"
  shows "digitOf (''0123456789'' ! nat d) = Some d"
proof -
  from assms have "d = 0 \<or> d = 1 \<or> d = 2 \<or> d = 3 \<or> d = 4 \<or> d = 5 \<or> d = 6 \<or> d = 7
      \<or> d = 8 \<or> d = 9"
    by arith
  then show ?thesis by (auto simp: digitOf_def)
qed

lemma digit_not_sign:
  assumes "0 \<le> d" and "d < 10"
  shows "''0123456789'' ! nat d \<noteq> CHR ''-'' \<and> ''0123456789'' ! nat d \<noteq> CHR ''+''"
proof -
  from assms have "d = 0 \<or> d = 1 \<or> d = 2 \<or> d = 3 \<or> d = 4 \<or> d = 5 \<or> d = 6 \<or> d = 7
      \<or> d = 8 \<or> d = 9"
    by arith
  then show ?thesis by auto
qed

lemma parseDigits_append:
  "parseDigits (xs @ ys) acc =
     (case parseDigits xs acc of None \<Rightarrow> None | Some m \<Rightarrow> parseDigits ys m)"
  by (induction xs arbitrary: acc) (auto split: option.splits)

lemma ParseUintLoop_append:
  "ParseUintLoop s0 (xs @ ys) acc =
     (case ParseUintLoop s0 xs acc of (m, None) \<Rightarrow> ParseUintLoop s0 ys m | (m, Some e) \<Rightarrow> (m, Some e))"
  by (induction xs arbitrary: acc) (auto split: option.splits)

lemma parseDigits_digitsOf: "0 \<le> n \<Longrightarrow> parseDigits (digitsOf n) 0 = Some n"
proof (induction n rule: digitsOf.induct)
  case (1 n)
  show ?case
  proof (cases "n < 10")
    case True
    with "1.prems" show ?thesis
      by (subst digitsOf.simps) (simp add: digitOf_digit)
  next
    case False
    with "1.prems" have ih: "parseDigits (digitsOf (n div 10)) 0 = Some (n div 10)"
      by (intro "1.IH") auto
    have d: "digitOf (''0123456789'' ! nat (n mod 10)) = Some (n mod 10)"
      by (rule digitOf_digit) auto
    from False ih d show ?thesis
      by (subst digitsOf.simps) (simp add: parseDigits_append)
  qed
qed

lemma ParseUintLoop_digitsOf:
  "0 \<le> n \<Longrightarrow> n \<le> 18446744073709551615 \<Longrightarrow> ParseUintLoop s0 (digitsOf n) 0 = (n, None)"
proof (induction n rule: digitsOf.induct)
  case (1 n)
  show ?case
  proof (cases "n < 10")
    case True
    with "1.prems" show ?thesis
      by (subst digitsOf.simps) (simp add: digitOf_digit)
  next
    case False
    with "1.prems" have ih: "ParseUintLoop s0 (digitsOf (n div 10)) 0 = (n div 10, None)"
      by (intro "1.IH") auto
    have d: "digitOf (''0123456789'' ! nat (n mod 10)) = Some (n mod 10)"
      by (rule digitOf_digit) auto
    from "1.prems" have small: "\<not> 1844674407370955162 \<le> n div 10" by arith
    from False ih d small "1.prems" show ?thesis
      by (subst digitsOf.simps) (simp add: ParseUintLoop_append)
  qed
qed

lemma digitsOf_Cons:
  "0 \<le> n \<Longrightarrow> \<exists>c cs. digitsOf n = c # cs \<and> c \<noteq> CHR ''-'' \<and> c \<noteq> CHR ''+''"
proof (induction n rule: digitsOf.induct)
  case (1 n)
  show ?case
  proof (cases "n < 10")
    case True
    with "1.prems" digit_not_sign [of n] show ?thesis
      by (subst digitsOf.simps) simp
  next
    case False
    with "1.prems" obtain c cs where "digitsOf (n div 10) = c # cs"
      "c \<noteq> CHR ''-''" "c \<noteq> CHR ''+''"
      using "1.IH" by fastforce
    with False show ?thesis
      by (subst digitsOf.simps) simp
  qed
qed

lemma Atoi_Itoa:
  assumes "- 9223372036854775808 \<le> i" and "i \<le> 9223372036854775807"
  shows "Atoi (Itoa i) = (i, None)"
proof (cases "i < 0")
  case True
  let ?ds = "digitsOf (- i)"
  from True have pd: "parseDigits ?ds 0 = Some (- i)"
    by (intro parseDigits_digitsOf) simp
  from True assms have pu: "ParseUintLoop ?ds ?ds 0 = (- i, None)"
    by (intro ParseUintLoop_digitsOf) auto
  from True assms pd pu digitsOf_nonempty [of "- i"] show ?thesis
    by (simp add: Itoa_def Atoi_def ParseInt_def ParseUint_def signedOf_def Let_def)
next
  case False
  let ?ds = "digitsOf i"
  from False have pd: "parseDigits ?ds 0 = Some i"
    by (intro parseDigits_digitsOf) simp
  from False assms have pu: "ParseUintLoop ?ds ?ds 0 = (i, None)"
    by (intro ParseUintLoop_digitsOf) auto
  from False obtain c cs where ds: "?ds = c # cs" "c \<noteq> CHR ''-''" "c \<noteq> CHR ''+''"
    using digitsOf_Cons [of i] by auto
  from False assms pd pu ds show ?thesis
    by (simp add: Itoa_def Atoi_def ParseInt_def ParseUint_def signedOf_def Let_def)
qed

subsection \<open>AddToComputePlan: availability\<close>

text \<open>
  C5, as amended. For a rank that a Go \<^verbatim>\<open>int\<close> holds, written as \<^verbatim>\<open>Itoa\<close> writes it,
  which is how \<^verbatim>\<open>Save\<close> writes it into the index, and a compute plan that is loaded,
  extended and saved: with
  availability checking, an entry in the index for (plan, worker, rank) makes
  \<^verbatim>\<open>AddToComputePlan\<close> fail with a bad-request error that names the plan, the worker and
  the rank. Without availability checking the call returns nil and the index is never
  consulted.
\<close>

theorem AddToComputePlan_availability:
  assumes "- 9223372036854775808 \<le> rank" and "rank \<le> 9223372036854775807"
    and "inp_Rank inp = Itoa rank"
    and "GetComputePlan ops db (inp_ComputePlanKey inp) = Inr computePlan"
    and "AddTuple ops db computePlan AggregatetupleType traintupleKey (Status tuple)
           (Worker tuple) = (None, computePlan1, db1)"
    and "SaveComputePlan ops db1 computePlan1 (inp_ComputePlanKey inp) = (None, db2)"
  shows
    "(GetIndexKeys ops db2 ''computePlan~computeplankey~worker~rank~key''
        [''computePlan'', inp_ComputePlanKey inp, Worker tuple, Itoa rank] = Inr ttKeys
      \<and> ttKeys \<noteq> [] \<longrightarrow>
        fst (AddToComputePlan ops db tuple inp traintupleKey True) =
          Some (errors_BadRequest
                  [ArgS ''ComputePlanKey %s with worker %s rank %d already exists'',
                   ArgS (inp_ComputePlanKey inp), ArgS (Worker tuple), ArgI rank])
        \<and> Option.bind (fst (AddToComputePlan ops db tuple inp traintupleKey True)) kindOf
            = Some BadRequestKind)
     \<and> fst (AddToComputePlan ops db tuple inp traintupleKey False) = None
     \<and> (\<forall>g. AddToComputePlan (ops\<lparr>GetIndexKeys := g\<rparr>) db tuple inp traintupleKey False
            = AddToComputePlan ops db tuple inp traintupleKey False)"
proof -
  have nonempty: "inp_Rank inp \<noteq> []"
    by (simp add: assms(3) Itoa_nonempty)
  have parsed: "Atoi (inp_Rank inp) = (rank, None)"
    by (simp add: assms(3) Atoi_Itoa [OF assms(1,2)])
  show ?thesis
    using AddToComputePlan_up_to_save [OF nonempty parsed assms(4-6)] assms(3)
    by (simp add: AddToComputePlan_unchecked_ignores_index errors_BadRequest_def)
qed

text \<open>
  C10. In the same situation, with availability checking and an entry in the index: the
  index is read on the ledger that the save of the compute plan left, and that ledger, not
  the one of the call, is returned with the error.
\<close>

theorem AddToComputePlan_error_after_save:
  assumes "inp_Rank inp \<noteq> []"
    and "Atoi (inp_Rank inp) = (rank, None)"
    and "GetComputePlan ops db (inp_ComputePlanKey inp) = Inr computePlan"
    and "AddTuple ops db computePlan AggregatetupleType traintupleKey (Status tuple)
           (Worker tuple) = (None, computePlan1, db1)"
    and "SaveComputePlan ops db1 computePlan1 (inp_ComputePlanKey inp) = (None, db2)"
    and "GetIndexKeys ops db2 ''computePlan~computeplankey~worker~rank~key''
           [''computePlan'', inp_ComputePlanKey inp, Worker tuple, inp_Rank inp] = Inr ttKeys"
    and "ttKeys \<noteq> []"
  shows "AddToComputePlan ops db tuple inp traintupleKey True =
           (Some (errors_BadRequest
                    [ArgS ''ComputePlanKey %s with worker %s rank %d already exists'',
                     ArgS (inp_ComputePlanKey inp), ArgS (Worker tuple), ArgI rank]),
            tuple\<lparr>Rank := rank, ComputePlanKey := inp_ComputePlanKey inp\<rparr>, db2)"
  using AddToComputePlan_up_to_save [OF assms(1-5), of True] assms(6,7) by simp






text \<open>The guard of lines 127 to 132: a compute-plan key without a rank is a bad request.\<close>

lemma AddToComputePlan_plan_key_without_rank:
  assumes "inp_Rank inp = []" and "inp_ComputePlanKey inp \<noteq> []"
  shows "AddToComputePlan ops db tuple inp traintupleKey check =
           (Some (errors_BadRequest [ArgS ''invalid inputs, a ComputePlan should have a rank'']),
            tuple, db)"
  using assms by (simp add: AddToComputePlan_def)


lemmas Atoi_simps =
  Atoi_def ParseInt_def ParseUint_def signedOf_def digitOf_def ErrSyntax_def ErrRange_def
  Let_def

lemma example_rank_0: "Atoi (inp_Rank (exampleInput cpk ''0'')) = (0, None)"
  by (simp add: exampleInput_def Atoi_simps)

lemma example_rank_canonical: "inp_Rank (exampleInput cpk ''0'') = Itoa 0"
  by (simp add: exampleInput_def Itoa_def digitsOf.simps)


lemma example_rank_nonempty: "inp_Rank (exampleInput cpk ''0'') \<noteq> []"
  by (simp add: exampleInput_def)

lemma example_plan1:
  "GetComputePlan exampleOps exampleLedger (inp_ComputePlanKey (exampleInput ''plan1'' ''0''))
   = Inr [(''a3'', StatusDoing, ''org1'')]"
  by (simp add: exampleInput_def exampleOps_def exampleLedger_def el_GetComputePlan_def)

lemma example_plan1_AddTuple:
  "AddTuple exampleOps exampleLedger [(''a3'', StatusDoing, ''org1'')] AggregatetupleType ''n''
     (Status (exampleTuple ''n'' ''org1'' StatusTodo [] []))
     (Worker (exampleTuple ''n'' ''org1'' StatusTodo [] []))
   = (None, [(''a3'', StatusDoing, ''org1''), (''n'', StatusTodo, ''org1'')], exampleLedger)"
  by (simp add: exampleOps_def exampleTuple_def)

lemma example_plan1_Save:
  "SaveComputePlan exampleOps exampleLedger
     [(''a3'', StatusDoing, ''org1''), (''n'', StatusTodo, ''org1'')]
     (inp_ComputePlanKey (exampleInput ''plan1'' ''0''))
   = (None, ledgerAfterPlanSave)"
  by (simp add: exampleOps_def exampleInput_def ledgerAfterPlanSave_def)

lemma example_plan1_index:
  "GetIndexKeys exampleOps ledgerAfterPlanSave ''computePlan~computeplankey~worker~rank~key''
     [''computePlan'', inp_ComputePlanKey (exampleInput ''plan1'' ''0''),
      Worker (exampleTuple ''n'' ''org1'' StatusTodo [] []), inp_Rank (exampleInput ''plan1'' ''0'')]
   = Inr [''a3'']"
  by (simp add: exampleOps_def exampleInput_def exampleTuple_def ledgerAfterPlanSave_def
        exampleLedger_def el_GetIndexKeys_def)

lemma example_plan1_index_canonical:
  "GetIndexKeys exampleOps ledgerAfterPlanSave ''computePlan~computeplankey~worker~rank~key''
     [''computePlan'', inp_ComputePlanKey (exampleInput ''plan1'' ''0''),
      Worker (exampleTuple ''n'' ''org1'' StatusTodo [] []), Itoa 0]
   = Inr [''a3'']"
  by (simp add: exampleOps_def exampleInput_def exampleTuple_def ledgerAfterPlanSave_def
        exampleLedger_def el_GetIndexKeys_def Itoa_def digitsOf.simps)

text \<open>
  \<^verbatim>\<open>Save\<close> on the example ledger, for a tuple of \<^verbatim>\<open>plan1\<close>, worker \<^verbatim>\<open>org1\<close> and rank 0:
  the index entry of the rank is written under \<^verbatim>\<open>0\<close>, as the entry of \<^verbatim>\<open>a3\<close> is.
\<close>

lemma example_Save_writes_rank_index:
  "fst (Save exampleOps exampleLedger (exampleTuple ''b'' ''org1'' StatusTodo ''plan1'' [''t1''])
          ''b'') = None
   \<and> el_index (snd (Save exampleOps exampleLedger
                      (exampleTuple ''b'' ''org1'' StatusTodo ''plan1'' [''t1'']) ''b''))
     = [(''computePlan~computeplankey~worker~rank~key'',
         [''computePlan'', ''plan1'', ''org1'', ''0'', ''a3'']),
        (''aggregatetuple~algo~key'', [''aggregatetuple'', ''algo'', ''b'']),
        (''aggregatetuple~worker~status~key'', [''aggregatetuple'', ''org1'', StatusTodo, ''b'']),
        (''tuple~inModel~key'', [''tuple'', ''t1'', ''b'']),
        (''computePlan~computeplankey~worker~rank~key'',
         [''computePlan'', ''plan1'', ''org1'', ''0'', ''b'']),
        (''algo~computeplankey~key'', [''algo'', ''plan1'', ''algo''])]"
  by (simp add: Save_def andThen_def Itoa_def digitsOf.simps example_simps)

lemmas plan_simps = AddToComputePlan_def Atoi_simps exampleInput_def

text \<open>
  On the example ledger the index already holds \<^verbatim>\<open>(plan1, org1, 0)\<close>. For the rank
  \<^verbatim>\<open>0\<close> the error of \<^verbatim>\<open>AddToComputePlan\<close> is a bad request, not a conflict. For the rank
  \<^verbatim>\<open>+0\<close>, which parses to the same rank 0, the index is probed under \<^verbatim>\<open>+0\<close> and the call
  returns nil.
\<close>

theorem AddToComputePlan_conflict_counterexample:
  "GetIndexKeys exampleOps ledgerAfterPlanSave ''computePlan~computeplankey~worker~rank~key''
     [''computePlan'', ''plan1'', ''org1'', ''0''] = Inr [''a3'']
   \<and> fst (AddToComputePlan exampleOps exampleLedger (exampleTuple ''n'' ''org1'' StatusTodo [] [])
         (exampleInput ''plan1'' ''0'') ''n'' True)
       = Some (ChaincodeError BadRequestKind
                 [ArgS ''ComputePlanKey %s with worker %s rank %d already exists'',
                  ArgS ''plan1'', ArgS ''org1'', ArgI 0])
   \<and> Option.bind
         (fst (AddToComputePlan exampleOps exampleLedger
                (exampleTuple ''n'' ''org1'' StatusTodo [] []) (exampleInput ''plan1'' ''0'') ''n''
                True)) kindOf
       \<noteq> Some ConflictKind
   \<and> Atoi ''+0'' = (0, None)
   \<and> fst (AddToComputePlan exampleOps exampleLedger (exampleTuple ''n'' ''org1'' StatusTodo [] [])
         (exampleInput ''plan1'' ''+0'') ''n'' True)
       = None"
  by (simp add: plan_simps ledgerAfterPlanSave_def example_simps)

theorem AddToComputePlan_availability_witness:
  "- 9223372036854775808 \<le> (0 :: int) \<and> (0 :: int) \<le> 9223372036854775807
   \<and> inp_Rank (exampleInput ''plan1'' ''0'') = Itoa 0
   \<and> GetIndexKeys exampleOps ledgerAfterPlanSave ''computePlan~computeplankey~worker~rank~key''
         [''computePlan'', ''plan1'', ''org1'', Itoa 0] = Inr [''a3'']
   \<and> fst (AddToComputePlan exampleOps exampleLedger (exampleTuple ''n'' ''org1'' StatusTodo [] [])
         (exampleInput ''plan1'' ''0'') ''n'' True)
     = Some (errors_BadRequest
               [ArgS ''ComputePlanKey %s with worker %s rank %d already exists'',
                ArgS ''plan1'', ArgS ''org1'', ArgI 0])
   \<and> fst (AddToComputePlan exampleOps exampleLedger (exampleTuple ''n'' ''org1'' StatusTodo [] [])
         (exampleInput ''plan1'' ''0'') ''n'' False) = None"
proof -
  have lo: "- 9223372036854775808 \<le> (0 :: int)" and hi: "(0 :: int) \<le> 9223372036854775807"
    by simp_all
  show ?thesis
    using AddToComputePlan_availability
      [OF lo hi example_rank_canonical example_plan1 example_plan1_AddTuple
          example_plan1_Save, of "[''a3'']"]
      example_plan1_index_canonical example_rank_canonical [of "''plan1''"]
    by (simp add: exampleInput_def exampleTuple_def)
qed

theorem AddToComputePlan_error_after_save_witness:
  "AddToComputePlan exampleOps exampleLedger (exampleTuple ''n'' ''org1'' StatusTodo [] [])
     (exampleInput ''plan1'' ''0'') ''n'' True
   = (Some (errors_BadRequest
              [ArgS ''ComputePlanKey %s with worker %s rank %d already exists'',
               ArgS ''plan1'', ArgS ''org1'', ArgI 0]),
      exampleTuple ''n'' ''org1'' StatusTodo ''plan1'' [], ledgerAfterPlanSave)
   \<and> map_of (el_plans ledgerAfterPlanSave) ''plan1''
       = Some [(''a3'', StatusDoing, ''org1''), (''n'', StatusTodo, ''org1'')]
   \<and> map_of (el_plans exampleLedger) ''plan1'' = Some [(''a3'', StatusDoing, ''org1'')]"
proof -
  have nonempty: "[''a3''] \<noteq> ([] :: string list)" by simp
  show ?thesis
    using AddToComputePlan_error_after_save
      [OF example_rank_nonempty example_rank_0 example_plan1 example_plan1_AddTuple
          example_plan1_Save example_plan1_index nonempty]
    by (simp add: exampleInput_def exampleTuple_def ledgerAfterPlanSave_def exampleLedger_def)
qed



end
